theory Spec2Isabelle
  imports Main
begin

unbundle bit_operations_syntax

section \<open>The operating system as seen by \<open>furnace/pid1.py\<close>\<close>

text \<open>
  \<open>pid1.py\<close> is a straight-line script of operating-system calls. The model keeps the
  calls it attempts, in order, in a trace, and lets the environment decide which of them
  are refused. Paths are strings. Python integers are \<open>int\<close>.
\<close>

type_synonym path = string

datatype signum = SIGCHLD

datatype sighandler = SIG_DFL | SIG_IGN

text \<open>One constructor per state-changing primitive that \<open>pid1.py\<close> calls.\<close>

datatype call =
    Setsid
  | Signal signum sighandler
  | Unshare int
  | Mount path path "string option" int "string option"
  | Mkdir path
  | Chdir path
  | Pivot_root path path
  | Chroot path
  | Mknod path int int
  | Chmod path int
  | Check_output "string list"
  | Umount2 path int
  | Rmdir path
  | Sethostname string
  | Write int string
  | Read int int

datatype error =
    ValueError string
  | OSError call
  | FileExistsError path
  | FileNotFoundError path
  | CalledProcessError int "string list"

datatype level = DEBUG | WARNING

text \<open>A special file: its \<open>st_mode\<close> (file type and permission bits) and device number.\<close>

record node =
  st_mode :: int
  st_rdev :: int

text \<open>
  The world. \<open>os_pid\<close>, \<open>os_exists\<close>, \<open>os_fails\<close>, \<open>os_status\<close>, \<open>os_read_data\<close> and
  \<open>os_umask\<close> are the environment's answers: the process identifier, whether a path
  exists when the program asks, whether a call is refused, the exit status and output of
  a subprocess, what a blocking read yields (\<open>None\<close>: it never returns; \<open>Some []\<close>:
  end of stream) and the file-creation mask. \<open>os_nodes\<close> are the special files made by
  \<open>mknod\<close>, \<open>os_sigchld\<close> the disposition of \<open>SIGCHLD\<close>, \<open>os_output\<close> the data written
  to file descriptors, \<open>os_trace\<close> the calls attempted so far and \<open>os_log\<close> the logger's
  records.
\<close>

record world =
  os_pid :: int
  os_exists :: "path \<Rightarrow> bool"
  os_fails :: "call \<Rightarrow> bool"
  os_status :: "string list \<Rightarrow> int \<times> string"
  os_read_data :: "int \<Rightarrow> string option"
  os_umask :: int
  os_nodes :: "path \<rightharpoonup> node"
  os_sigchld :: sighandler
  os_output :: "(int \<times> string) list"
  os_trace :: "call list"
  os_log :: "(level \<times> string) list"

text \<open>
  A computation returns a value, raises, or blocks forever; in each case the world it
  leaves behind is kept.
\<close>

datatype 'a outcome = Return 'a | Raise error | Block

type_synonym 'a io = "world \<Rightarrow> 'a outcome \<times> world"

definition io_return :: "'a \<Rightarrow> 'a io" where
  "io_return x w = (Return x, w)"

definition io_raise :: "error \<Rightarrow> 'a io" where
  "io_raise e w = (Raise e, w)"

definition io_bind :: "'a io \<Rightarrow> ('a \<Rightarrow> 'b io) \<Rightarrow> 'b io" where
  "io_bind m f w =
     (case m w of
        (Return x, w') \<Rightarrow> f x w'
      | (Raise e, w') \<Rightarrow> (Raise e, w')
      | (Block, w') \<Rightarrow> (Block, w'))"

definition io_then :: "'a io \<Rightarrow> 'b io \<Rightarrow> 'b io" where
  "io_then m k = io_bind m (\<lambda>_. k)"

text \<open>A Python \<open>for\<close> loop over a list whose body returns nothing.\<close>

primrec for_each :: "('a \<Rightarrow> unit io) \<Rightarrow> 'a list \<Rightarrow> unit io" where
  "for_each body [] = io_return ()"
| "for_each body (x # xs) = io_then (body x) (for_each body xs)"

subsection \<open>File modes\<close>

text \<open>The constants of Python's \<open>stat\<close> module: \<open>0o170000\<close>, \<open>0o020000\<close>, \<open>0o060000\<close>.\<close>

definition S_IFMT :: int where "S_IFMT = 61440"
definition S_IFCHR :: int where "S_IFCHR = 8192"
definition S_IFBLK :: int where "S_IFBLK = 24576"

text \<open>The permission bits, \<open>0o7777\<close>.\<close>

definition S_IALLUGO :: int where "S_IALLUGO = 4095"

text \<open>\<open>os.makedev\<close>, as in glibc's \<open>gnu_dev_makedev\<close>.\<close>

definition makedev :: "int \<Rightarrow> int \<Rightarrow> int" where
  "makedev major minor =
     push_bit 32 (major AND 4294963200) OR push_bit 8 (major AND 4095)
       OR push_bit 12 (minor AND 4294967040) OR (minor AND 255)"

subsection \<open>Primitives\<close>

text \<open>
  What a call that is not refused changes. \<open>mknod\<close> filters the permission bits of its
  mode through the file-creation mask; \<open>chmod\<close> replaces the permission bits and keeps the
  file type; \<open>signal\<close> sets the disposition of \<open>SIGCHLD\<close>. The other calls leave only
  their entry in the trace.
\<close>

fun effect :: "call \<Rightarrow> world \<Rightarrow> world" where
  "effect (Mknod p m d) w =
     w\<lparr>os_nodes := (os_nodes w)(p \<mapsto>
        \<lparr>st_mode = (m AND S_IFMT) OR ((m AND S_IALLUGO) AND NOT (os_umask w)), st_rdev = d\<rparr>)\<rparr>"
| "effect (Chmod p m) w =
     (case os_nodes w p of
        None \<Rightarrow> w
      | Some n \<Rightarrow> w\<lparr>os_nodes := (os_nodes w)(p \<mapsto>
          n\<lparr>st_mode := (st_mode n AND S_IFMT) OR (m AND S_IALLUGO)\<rparr>)\<rparr>)"
| "effect (Write fd d) w = w\<lparr>os_output := os_output w @ [(fd, d)]\<rparr>"
| "effect (Signal s h) w = (case s of SIGCHLD \<Rightarrow> w\<lparr>os_sigchld := h\<rparr>)"
| "effect c w = w"

text \<open>
  Why a call is refused: \<open>mknod\<close> on a path that is already a node, \<open>chmod\<close> on a path
  that is none, and whatever the environment refuses.
\<close>

fun refusal :: "world \<Rightarrow> call \<Rightarrow> error option" where
  "refusal w (Mknod p m d) =
     (if os_nodes w p \<noteq> None then Some (FileExistsError p)
      else if os_fails w (Mknod p m d) then Some (OSError (Mknod p m d)) else None)"
| "refusal w (Chmod p m) =
     (if os_nodes w p = None then Some (FileNotFoundError p)
      else if os_fails w (Chmod p m) then Some (OSError (Chmod p m)) else None)"
| "refusal w c = (if os_fails w c then Some (OSError c) else None)"

definition syscall :: "call \<Rightarrow> unit io" where
  "syscall c w =
     (let w1 = w\<lparr>os_trace := os_trace w @ [c]\<rparr>
      in case refusal w c of
           Some e \<Rightarrow> (Raise e, w1)
         | None \<Rightarrow> (Return (), effect c w1))"

definition logger :: "level \<Rightarrow> string \<Rightarrow> unit io" where
  "logger l msg w = (Return (), w\<lparr>os_log := os_log w @ [(l, msg)]\<rparr>)"

text \<open>\<open>Path(p).exists()\<close>.\<close>

definition path_exists :: "path \<Rightarrow> bool io" where
  "path_exists p w = (Return (os_exists w p), w)"

definition non_caching_getpid :: "int io" where
  "non_caching_getpid w = (Return (os_pid w), w)"

text \<open>
  \<open>subprocess.check_output\<close>: raises when the program cannot be started or when the
  return code it collects is not zero, and returns the output otherwise. The return code
  is the child's exit status, unless \<open>SIGCHLD\<close> is ignored: then the kernel discards the
  status of a terminated child, \<open>waitpid\<close> fails with \<open>ECHILD\<close>, and \<open>subprocess\<close> takes
  the return code to be 0.
\<close>

definition check_output :: "string list \<Rightarrow> string io" where
  "check_output argv w =
     (let w1 = w\<lparr>os_trace := os_trace w @ [Check_output argv]\<rparr>;
          returncode = (if os_sigchld w = SIG_IGN then 0 else fst (os_status w argv))
      in if os_fails w (Check_output argv) then (Raise (OSError (Check_output argv)), w1)
         else if returncode \<noteq> 0
           then (Raise (CalledProcessError returncode argv), w1)
         else (Return (snd (os_status w argv)), w1))"

text \<open>\<open>os.write\<close> returns the number of bytes written.\<close>

definition os_write :: "int \<Rightarrow> string \<Rightarrow> int io" where
  "os_write fd d = io_then (syscall (Write fd d)) (io_return (int (length d)))"

text \<open>
  \<open>os.read(fd, n)\<close>: blocks until the descriptor yields something, then returns at most
  \<open>n\<close> bytes, none of them at end of stream.
\<close>

definition os_read :: "int \<Rightarrow> int \<Rightarrow> string io" where
  "os_read fd n w =
     (let w1 = w\<lparr>os_trace := os_trace w @ [Read fd n]\<rparr>
      in if os_fails w (Read fd n) then (Raise (OSError (Read fd n)), w1)
         else case os_read_data w fd of
                None \<Rightarrow> (Block, w1)
              | Some d \<Rightarrow> (Return (take (nat n) d), w1))"

subsection \<open>Strings and paths\<close>

text \<open>\<open>sep.join(xs)\<close>.\<close>

fun join :: "string \<Rightarrow> string list \<Rightarrow> string" where
  "join sep [] = []"
| "join sep [x] = x"
| "join sep (x # y # ys) = x @ sep @ join sep (y # ys)"

text \<open>The decimal digits of a natural number, as \<open>'{}'.format(i)\<close> writes them.\<close>

fun str_nat :: "nat \<Rightarrow> string" where
  "str_nat n =
     (if n < 10 then [char_of (48 + n)]
      else str_nat (n div 10) @ [char_of (48 + n mod 10)])"

text \<open>
  \<open>Path(base, name)\<close> and \<open>base.joinpath(name)\<close> for a \<open>name\<close> that is one plain path
  component, which is all \<open>pid1.py\<close> joins.
\<close>

definition joinpath :: "path \<Rightarrow> string \<Rightarrow> path" where
  "joinpath base name = (if base = ''/'' then ''/'' @ name else base @ ''/'' @ name)"

section \<open>Configuration\<close>

text \<open>A \<open>CONTAINER_MOUNTS\<close> entry; \<open>flags\<close> and \<open>options\<close> are optional keys.\<close>

record mount_entry =
  m_source :: path
  m_destination :: path
  m_type :: string
  m_flags :: "int option"
  m_options :: "string list option"

datatype dev_kind = CharDevice | BlockDevice

text \<open>
  Modelled from the spec: \<open>CONTAINER_DEVICE_NODES\<close> lives in \<open>bake.container.config\<close>,
  which is not part of the source at hand. The spec gives each entry \<open>name\<close>, \<open>major\<close>,
  \<open>minor\<close>, \<open>mode\<close> and \<open>kind\<close>; \<open>pid1.py\<close> reads \<open>name\<close>, \<open>major\<close> and \<open>minor\<close>.
\<close>

record device_entry =
  d_name :: string
  d_major :: int
  d_minor :: int
  d_mode :: int
  d_kind :: dev_kind

text \<open>
  The names \<open>pid1.py\<close> imports from \<open>bake.container.libc\<close> and
  \<open>bake.container.config\<close>, taken as parameters. \<open>NAMESPACES\<close> is a dictionary iterated
  in order, kept as an association list.
\<close>

record config =
  MS_REC :: int
  MS_SLAVE :: int
  CLONE_NEWPID :: int
  CLONE_NEWNET :: int
  MNT_DETACH :: int
  NAMESPACES :: "(string \<times> int) list"
  CONTAINER_MOUNTS :: "mount_entry list"
  CONTAINER_DEVICE_NODES :: "device_entry list"
  HOSTNAME :: string

section \<open>\<open>class PID1\<close>\<close>

text \<open>The fields set by \<open>__init__\<close>; \<open>root_dir\<close> is the resolved path.\<close>

record pid1 =
  control_read :: int
  control_write :: int
  root_dir :: path
  isolate_networking :: bool

definition enable_zombie_reaping :: "unit io" where
  "enable_zombie_reaping = syscall (Signal SIGCHLD SIG_IGN)"

definition setup_root_mount :: "config \<Rightarrow> pid1 \<Rightarrow> unit io" where
  "setup_root_mount cfg self =
     io_then (syscall (Mount ''none'' ''/'' None (MS_REC cfg OR MS_SLAVE cfg) None))
    (io_then (syscall (Mkdir (joinpath (root_dir self) ''old_root'')))
    (io_then (syscall (Chdir (root_dir self)))
    (io_then (syscall (Pivot_root ''.'' ''old_root''))
             (syscall (Chroot ''.'')))))"

definition mount_one :: "mount_entry \<Rightarrow> unit io" where
  "mount_one m =
     (let options = (case m_options m of None \<Rightarrow> None | Some os \<Rightarrow> Some (join '','' os))
      in io_then (syscall (Mkdir (m_destination m)))
           (syscall (Mount (m_source m) (m_destination m) (Some (m_type m))
              (case m_flags m of None \<Rightarrow> 0 | Some f \<Rightarrow> f) options)))"

definition mount_defaults :: "config \<Rightarrow> unit io" where
  "mount_defaults cfg = for_each mount_one (CONTAINER_MOUNTS cfg)"

text \<open>The \<open>repr\<close> of a bytes object inside a formatted message, escapes left out.\<close>

definition bytes_repr :: "string \<Rightarrow> string" where
  "bytes_repr b = CHR ''b'' # CHR 0x27 # b @ [CHR 0x27]"

definition tmpfiles_argv :: "mount_entry \<Rightarrow> string list" where
  "tmpfiles_argv m = [''/bin/systemd-tmpfiles'', ''--create'', ''--prefix'', m_destination m]"

definition tmpfs_one :: "mount_entry \<Rightarrow> unit io" where
  "tmpfs_one m =
     (if m_type m = ''tmpfs''
      then io_bind (check_output (tmpfiles_argv m)) (\<lambda>tmpfiles_output.
             if tmpfiles_output \<noteq> []
             then logger DEBUG (''systemd-tmpfiles output: '' @ bytes_repr tmpfiles_output)
             else io_return ())
      else io_return ())"

definition create_tmpfs_dirs :: "config \<Rightarrow> unit io" where
  "create_tmpfs_dirs cfg =
     io_bind (path_exists ''/bin/systemd-tmpfiles'') (\<lambda>ex.
       if ex then for_each tmpfs_one (CONTAINER_MOUNTS cfg)
       else logger WARNING
         (''Could not run systemd-tmpfiles, because it does not exist. ''
            @ ''/tmp and /run will not be populated.''))"

definition create_device_node :: "string \<Rightarrow> int \<Rightarrow> int \<Rightarrow> int \<Rightarrow> bool \<Rightarrow> unit io" where
  "create_device_node name major minor mode is_block_device =
     (let device_type = (if is_block_device then S_IFBLK else S_IFCHR);
          nodepath = joinpath ''/dev'' name
      in io_then (syscall (Mknod nodepath device_type (makedev major minor)))
                 (syscall (Chmod nodepath mode)))"

definition create_default_dev_nodes :: "config \<Rightarrow> unit io" where
  "create_default_dev_nodes cfg =
     for_each (\<lambda>d. create_device_node (d_name d) (d_major d) (d_minor d) 438 False)
       (CONTAINER_DEVICE_NODES cfg)"

definition create_loop_devices :: "unit io" where
  "create_loop_devices =
     io_then (create_device_node ''loop-control'' 10 237 432 False)
       (for_each (\<lambda>i. create_device_node (''loop'' @ str_nat i) 7 (int i) 432 True) [0..<8])"

definition umount_old_root :: "config \<Rightarrow> unit io" where
  "umount_old_root cfg =
     io_then (syscall (Umount2 ''/old_root'' (MNT_DETACH cfg))) (syscall (Rmdir ''/old_root''))"

text \<open>The loop of \<open>create_namespaces\<close>, with \<open>unshare_flags\<close> as its accumulator.\<close>

fun namespaces_loop :: "config \<Rightarrow> pid1 \<Rightarrow> (string \<times> int) list \<Rightarrow> int \<Rightarrow> int io" where
  "namespaces_loop cfg self [] unshare_flags = io_return unshare_flags"
| "namespaces_loop cfg self ((name, flag) # rest) unshare_flags =
     (if flag = CLONE_NEWPID cfg then namespaces_loop cfg self rest unshare_flags
      else if flag = CLONE_NEWNET cfg \<and> \<not> isolate_networking self
        then namespaces_loop cfg self rest unshare_flags
      else io_bind (path_exists (joinpath ''/proc/self/ns'' name)) (\<lambda>ex.
        if ex then namespaces_loop cfg self rest (unshare_flags OR flag)
        else io_then
          (logger WARNING (''Namespace type '' @ name @ '' not supported on this system''))
          (namespaces_loop cfg self rest unshare_flags)))"

definition create_namespaces :: "config \<Rightarrow> pid1 \<Rightarrow> unit io" where
  "create_namespaces cfg self =
     io_bind (namespaces_loop cfg self (NAMESPACES cfg) 0) (\<lambda>unshare_flags.
       syscall (Unshare unshare_flags))"

text \<open>
  \<open>run\<close>. The decoding of \<open>b'a'\<close> before \<open>os.setsid()\<close> only loads a codec: it
  calls nothing of the operating system and its value is not used.
\<close>

definition run :: "config \<Rightarrow> pid1 \<Rightarrow> int io" where
  "run cfg self =
     io_bind non_caching_getpid (\<lambda>pid.
       if pid \<noteq> 1
       then io_raise (ValueError ''We are not actually PID1, exiting for safety reasons'')
       else
         io_then (syscall Setsid)
        (io_then enable_zombie_reaping
        (io_then (create_namespaces cfg self)
        (io_then (setup_root_mount cfg self)
        (io_then (mount_defaults cfg)
        (io_then (create_default_dev_nodes cfg)
        (io_then create_loop_devices
        (io_then (create_tmpfs_dirs cfg)
        (io_then (umount_old_root cfg)
        (io_then (syscall (Sethostname (HOSTNAME cfg)))
        (io_then (os_write (control_write self) ''RDY'')
        (io_then (logger DEBUG ''Container started'')
        (io_then (os_read (control_read self) 1)
        (io_then (logger DEBUG ''Control pipe closed, stopping'')
                 (io_return 0)))))))))))))))"

text \<open>
  Three stretches of the body of \<open>run\<close>, named so that statements can speak of the world
  in which a later step starts: the steps from \<open>os.setsid()\<close> to
  \<open>create_loop_devices()\<close>, all the steps up to \<open>sethostname(HOSTNAME)\<close>, and what
  follows them.
\<close>

definition steps_before_tmpfs :: "config \<Rightarrow> pid1 \<Rightarrow> unit io" where
  "steps_before_tmpfs cfg self =
         io_then (syscall Setsid)
        (io_then enable_zombie_reaping
        (io_then (create_namespaces cfg self)
        (io_then (setup_root_mount cfg self)
        (io_then (mount_defaults cfg)
        (io_then (create_default_dev_nodes cfg)
                 create_loop_devices)))))"

definition setup_steps :: "config \<Rightarrow> pid1 \<Rightarrow> unit io" where
  "setup_steps cfg self =
         io_then (steps_before_tmpfs cfg self)
        (io_then (create_tmpfs_dirs cfg)
        (io_then (umount_old_root cfg)
                 (syscall (Sethostname (HOSTNAME cfg)))))"

definition handshake :: "pid1 \<Rightarrow> int io" where
  "handshake self =
         io_then (os_write (control_write self) ''RDY'')
        (io_then (logger DEBUG ''Container started'')
        (io_then (os_read (control_read self) 1)
        (io_then (logger DEBUG ''Control pipe closed, stopping'')
                 (io_return 0))))"

section \<open>Observations\<close>

text \<open>\<open>stat.S_IFMT(os.stat(p).st_mode)\<close> and \<open>stat.S_IMODE(os.stat(p).st_mode)\<close>.\<close>

definition stat_ifmt :: "world \<Rightarrow> path \<Rightarrow> int option" where
  "stat_ifmt w p = (case os_nodes w p of None \<Rightarrow> None | Some n \<Rightarrow> Some (st_mode n AND S_IFMT))"

definition stat_imode :: "world \<Rightarrow> path \<Rightarrow> int option" where
  "stat_imode w p =
     (case os_nodes w p of None \<Rightarrow> None | Some n \<Rightarrow> Some (st_mode n AND S_IALLUGO))"

definition stat_rdev :: "world \<Rightarrow> path \<Rightarrow> int option" where
  "stat_rdev w p = (case os_nodes w p of None \<Rightarrow> None | Some n \<Rightarrow> Some (st_rdev n))"

definition kind_bits :: "dev_kind \<Rightarrow> int" where
  "kind_bits k = (case k of CharDevice \<Rightarrow> S_IFCHR | BlockDevice \<Rightarrow> S_IFBLK)"

text \<open>
  What every setup step leaves alone: the environment's answers and the data written to
  descriptors. It only adds calls to the trace, none of them a write.
\<close>

definition frame :: "world \<Rightarrow> world \<Rightarrow> bool" where
  "frame w w' \<longleftrightarrow>
     os_pid w' = os_pid w \<and> os_exists w' = os_exists w \<and> os_fails w' = os_fails w \<and>
     os_status w' = os_status w \<and> os_read_data w' = os_read_data w \<and>
     os_umask w' = os_umask w \<and> os_output w' = os_output w \<and>
     (\<exists>es. os_trace w' = os_trace w @ es \<and> (\<forall>fd d. Write fd d \<notin> set es))"

definition setup_step :: "'a io \<Rightarrow> bool" where
  "setup_step m \<longleftrightarrow> (\<forall>w. frame w (snd (m w)) \<and> fst (m w) \<noteq> Block)"

text \<open>
  The calls of a computation started in \<open>w\<close> are a prefix of \<open>cs\<close>, and all of \<open>cs\<close> when
  it returns.
\<close>

definition calls_within :: "world \<Rightarrow> 'a outcome \<times> world \<Rightarrow> call list \<Rightarrow> bool" where
  "calls_within w r cs \<longleftrightarrow>
     (\<exists>n. os_trace (snd r) = os_trace w @ take n cs \<and>
          (\<forall>x. fst r = Return x \<longrightarrow> length cs \<le> n))"

section \<open>Sample inputs\<close>

text \<open>
  A configuration with the Linux values of the \<open>libc\<close> constants, a controller's
  arguments, and a world in which the process is PID 1, every path asked for exists, no
  call is refused, \<open>SIGCHLD\<close> has its default disposition and the controller has closed
  its end of the pipe.
\<close>

definition sample_cfg :: config where
  "sample_cfg = \<lparr>
     MS_REC = 16384, MS_SLAVE = 524288,
     CLONE_NEWPID = 536870912, CLONE_NEWNET = 1073741824, MNT_DETACH = 2,
     NAMESPACES = [(''mnt'', 131072), (''pid'', 536870912), (''net'', 1073741824)],
     CONTAINER_MOUNTS =
       [\<lparr>m_source = ''proc'', m_destination = ''/proc'', m_type = ''proc'',
          m_flags = None, m_options = None\<rparr>,
        \<lparr>m_source = ''tmpfs'', m_destination = ''/tmp'', m_type = ''tmpfs'',
          m_flags = Some 6, m_options = Some [''mode=1777'', ''size=64m'']\<rparr>],
     CONTAINER_DEVICE_NODES =
       [\<lparr>d_name = ''null'', d_major = 1, d_minor = 3, d_mode = 438, d_kind = CharDevice\<rparr>,
        \<lparr>d_name = ''zero'', d_major = 1, d_minor = 5, d_mode = 438, d_kind = CharDevice\<rparr>],
     HOSTNAME = ''localhost''\<rparr>"

definition sample_self :: pid1 where
  "sample_self = \<lparr>control_read = 3, control_write = 4, root_dir = ''/mnt/ctr'',
     isolate_networking = True\<rparr>"

definition sample_world :: world where
  "sample_world = \<lparr>os_pid = 1, os_exists = (\<lambda>p. True), os_fails = (\<lambda>c. False),
     os_status = (\<lambda>argv. (0, [])), os_read_data = (\<lambda>fd. Some []), os_umask = 18,
     os_nodes = Map.empty, os_sigchld = SIG_DFL, os_output = [], os_trace = [], os_log = []\<rparr>"

text \<open>
  A table whose one entry asks for a block device with mode \<open>0o660\<close>.
\<close>

definition block_entry :: device_entry where
  "block_entry = \<lparr>d_name = ''sda'', d_major = 8, d_minor = 0, d_mode = 432, d_kind = BlockDevice\<rparr>"

definition block_cfg :: config where
  "block_cfg = sample_cfg\<lparr>CONTAINER_DEVICE_NODES := [block_entry]\<rparr>"

text \<open>
  The entries of \<open>NAMESPACES\<close> that the loop of \<open>create_namespaces\<close> does not pass over
  with \<open>continue\<close>.
\<close>

definition eligible :: "config \<Rightarrow> pid1 \<Rightarrow> string \<times> int \<Rightarrow> bool" where
  "eligible cfg self e \<longleftrightarrow>
     snd e \<noteq> CLONE_NEWPID cfg \<and> \<not> (snd e = CLONE_NEWNET cfg \<and> \<not> isolate_networking self)"

text \<open>
  A table with the network namespace only, for a container that keeps the host's
  network, on a kernel without network namespaces.
\<close>

definition net_cfg :: config where
  "net_cfg = sample_cfg\<lparr>NAMESPACES := [(''net'', 1073741824)]\<rparr>"

definition host_net_self :: pid1 where
  "host_net_self = sample_self\<lparr>isolate_networking := False\<rparr>"

definition bare_world :: world where
  "bare_world = sample_world\<lparr>os_exists := (\<lambda>p. False)\<rparr>"

text \<open>A world in which every subprocess exits with status 1.\<close>

definition failing_world :: world where
  "failing_world = sample_world\<lparr>os_status := (\<lambda>argv. (1, []))\<rparr>"

text \<open>A world in which \<open>pivot_root\<close> is refused.\<close>

definition refusing_world :: world where
  "refusing_world = sample_world\<lparr>os_fails := (\<lambda>c. c = Pivot_root ''.'' ''old_root'')\<rparr>"

section \<open>Properties\<close>

subsection \<open>Sequencing\<close>

lemma io_then_Return: "m w = (Return x, w1) \<Longrightarrow> io_then m k w = k w1"
  by (simp add: io_then_def io_bind_def)

lemma io_then_Raise: "m w = (Raise e, w1) \<Longrightarrow> io_then m k w = (Raise e, w1)"
  by (simp add: io_then_def io_bind_def)

lemma io_then_assoc: "io_then (io_then a b) c = io_then a (io_then b c)"
  by (rule ext) (simp add: io_then_def io_bind_def split: prod.splits outcome.splits)

lemma io_then_Return_iff:
  "io_then m k w = (Return y, w') \<longleftrightarrow> (\<exists>x w1. m w = (Return x, w1) \<and> k w1 = (Return y, w'))"
  by (auto simp: io_then_def io_bind_def split: prod.splits outcome.splits)

subsection \<open>Permission bits\<close>

lemma perm_bits: "0 \<le> m \<Longrightarrow> m \<le> 4095 \<Longrightarrow> m AND (4095::int) = m"
proof -
  assume a: "0 \<le> m" "m \<le> 4095"
  have "take_bit 12 m = m" using a by (simp add: take_bit_int_eq_self)
  moreover have "(4095::int) = mask 12" by (simp add: mask_eq_exp_minus_1)
  ultimately show ?thesis by (simp add: take_bit_eq_mask)
qed

lemma perm_bits_no_type: "(m AND (4095::int)) AND 61440 = 0"
proof -
  have "(m AND (4095::int)) AND 61440 = m AND (4095 AND 61440)" by (simp only: and.assoc)
  also have "\<dots> = 0" by simp
  finally show ?thesis .
qed

subsection \<open>Device nodes\<close>

lemma syscall_Return_iff:
  "syscall c w = (Return (), w') \<longleftrightarrow>
     refusal w c = None \<and> w' = effect c (w\<lparr>os_trace := os_trace w @ [c]\<rparr>)"
  by (auto simp: syscall_def Let_def split: option.splits)

lemma create_device_node_Return:
  assumes "create_device_node name major minor mode blk w = (Return (), w')"
  shows "os_nodes w (joinpath ''/dev'' name) = None"
    and "os_nodes w' = (os_nodes w)(joinpath ''/dev'' name \<mapsto>
           \<lparr>st_mode = (if blk then S_IFBLK else S_IFCHR) OR (mode AND S_IALLUGO),
            st_rdev = makedev major minor\<rparr>)"
  using assms
  by (auto simp: create_device_node_def Let_def io_then_Return_iff syscall_Return_iff
      S_IFMT_def S_IFCHR_def S_IFBLK_def S_IALLUGO_def split: if_splits)

lemma type_bits:
  "((if blk then S_IFBLK else S_IFCHR) OR (mode AND S_IALLUGO)) AND S_IFMT =
     (if blk then S_IFBLK else S_IFCHR)"
proof -
  have "(mode AND S_IALLUGO) AND S_IFMT = 0"
    unfolding S_IALLUGO_def S_IFMT_def by (rule perm_bits_no_type)
  moreover have "(if blk then S_IFBLK else S_IFCHR) AND S_IFMT = (if blk then S_IFBLK else S_IFCHR)"
    by (simp add: S_IFBLK_def S_IFCHR_def S_IFMT_def)
  ultimately show ?thesis by (simp only: bit.conj_disj_distrib2 or.right_neutral)
qed

lemma mode_bits:
  "((if blk then S_IFBLK else S_IFCHR) OR (mode AND S_IALLUGO)) AND S_IALLUGO = mode AND S_IALLUGO"
proof -
  have "(if blk then S_IFBLK else S_IFCHR) AND S_IALLUGO = 0"
    by (simp add: S_IFBLK_def S_IFCHR_def S_IALLUGO_def)
  then show ?thesis by (simp only: bit.conj_disj_distrib2 or.left_neutral and.assoc and.idem)
qed

text \<open>
  C8. When \<open>create_device_node\<close> returns, the node at its path has exactly the permission
  mode passed in (a mode within \<open>0o7777\<close>), and the requested file type, whatever the
  file-creation mask of the world it ran in: \<open>mknod\<close> is given no permission bits and
  \<open>chmod\<close> sets them afterwards.
\<close>

theorem create_device_node_sets_mode:
  assumes "create_device_node name major minor mode is_block_device w = (Return (), w')"
    and "0 \<le> mode" and "mode \<le> 4095"
  shows "stat_imode w' (joinpath ''/dev'' name) = Some mode \<and>
         stat_ifmt w' (joinpath ''/dev'' name) = Some (if is_block_device then S_IFBLK else S_IFCHR)"
proof -
  let ?t = "if is_block_device then S_IFBLK else S_IFCHR"
  have m: "mode AND S_IALLUGO = mode"
    using assms(2,3) by (simp add: S_IALLUGO_def perm_bits)
  have n: "os_nodes w' (joinpath ''/dev'' name) =
      Some \<lparr>st_mode = ?t OR (mode AND S_IALLUGO), st_rdev = makedev major minor\<rparr>"
    using create_device_node_Return(2) [OF assms(1)] by simp
  have "stat_imode w' (joinpath ''/dev'' name) = Some (mode AND S_IALLUGO)"
    unfolding stat_imode_def n by (simp only: option.case node.select_convs mode_bits)
  moreover have "stat_ifmt w' (joinpath ''/dev'' name) = Some ?t"
    unfolding stat_ifmt_def n by (simp only: option.case node.select_convs type_bits)
  ultimately show ?thesis by (simp only: m simp_thms)
qed

theorem create_device_node_sets_mode_witness:
  "create_device_node ''null'' 1 3 438 False (sample_world\<lparr>os_umask := 63\<rparr>) =
     (Return (), sample_world\<lparr>os_umask := 63,
        os_trace := [Mknod ''/dev/null'' 8192 259, Chmod ''/dev/null'' 438],
        os_nodes := [''/dev/null'' \<mapsto> \<lparr>st_mode = 8630, st_rdev = 259\<rparr>]\<rparr>)
   \<and> stat_imode (sample_world\<lparr>os_umask := 63,
        os_trace := [Mknod ''/dev/null'' 8192 259, Chmod ''/dev/null'' 438],
        os_nodes := [''/dev/null'' \<mapsto> \<lparr>st_mode = 8630, st_rdev = 259\<rparr>]\<rparr>)
        (joinpath ''/dev'' ''null'') = Some 438"
proof -
  have r: "create_device_node ''null'' 1 3 438 False (sample_world\<lparr>os_umask := 63\<rparr>) =
     (Return (), sample_world\<lparr>os_umask := 63,
        os_trace := [Mknod ''/dev/null'' 8192 259, Chmod ''/dev/null'' 438],
        os_nodes := [''/dev/null'' \<mapsto> \<lparr>st_mode = 8630, st_rdev = 259\<rparr>]\<rparr>)"
    by (simp add: create_device_node_def sample_world_def io_then_def io_bind_def syscall_def
      joinpath_def makedev_def S_IFCHR_def S_IFMT_def S_IALLUGO_def Let_def)
  show ?thesis
    using r create_device_node_sets_mode [OF r] by simp
qed

text \<open>
  C7. If the process identifier is not 1, \<open>run\<close> raises at the identity check and leaves
  the world as it found it: no session is started, no signal disposition set, no
  namespace or mount call attempted, nothing logged or written.
\<close>

theorem run_refuses_when_not_pid1:
  assumes "os_pid w \<noteq> 1"
  shows "run cfg self w =
    (Raise (ValueError ''We are not actually PID1, exiting for safety reasons''), w)"
  using assms by (simp add: run_def io_bind_def non_caching_getpid_def io_raise_def)

theorem run_refuses_when_not_pid1_witness:
  "os_pid (sample_world\<lparr>os_pid := 7\<rparr>) \<noteq> 1 \<and>
   run sample_cfg sample_self (sample_world\<lparr>os_pid := 7\<rparr>) =
     (Raise (ValueError ''We are not actually PID1, exiting for safety reasons''),
      sample_world\<lparr>os_pid := 7\<rparr>)"
proof -
  have h: "os_pid (sample_world\<lparr>os_pid := 7\<rparr>) \<noteq> 1" by simp
  show ?thesis
    using h run_refuses_when_not_pid1 [OF h, of sample_cfg sample_self] by simp
qed

lemma create_device_node_keeps:
  assumes "create_device_node name major minor mode blk w = (Return (), w')"
    and "os_nodes w p = Some n"
  shows "os_nodes w' p = Some n"
proof -
  have "p \<noteq> joinpath ''/dev'' name"
    using create_device_node_Return(1) [OF assms(1)] assms(2) by auto
  then show ?thesis
    using create_device_node_Return(2) [OF assms(1)] assms(2) by simp
qed

lemma default_nodes_keep:
  assumes "for_each (\<lambda>d. create_device_node (d_name d) (d_major d) (d_minor d) 438 False) ds w
             = (Return (), w')"
    and "os_nodes w p = Some n"
  shows "os_nodes w' p = Some n"
  using assms
proof (induction ds arbitrary: w)
  case Nil
  then show ?case by (simp add: io_return_def)
next
  case (Cons d ds)
  from Cons.prems(1) obtain w1 where
    s: "create_device_node (d_name d) (d_major d) (d_minor d) 438 False w = (Return (), w1)"
    and r: "for_each (\<lambda>d. create_device_node (d_name d) (d_major d) (d_minor d) 438 False) ds w1
             = (Return (), w')"
    by (auto simp: io_then_Return_iff)
  have "os_nodes w1 p = Some n"
    using create_device_node_keeps [OF s Cons.prems(2)] .
  then show ?case using Cons.IH [OF r] by simp
qed

lemma default_nodes_made:
  assumes "for_each (\<lambda>d. create_device_node (d_name d) (d_major d) (d_minor d) 438 False) ds w
             = (Return (), w')"
    and "d \<in> set ds"
  shows "os_nodes w' (joinpath ''/dev'' (d_name d)) =
           Some \<lparr>st_mode = S_IFCHR OR (438 AND S_IALLUGO), st_rdev = makedev (d_major d) (d_minor d)\<rparr>"
  using assms
proof (induction ds arbitrary: w)
  case Nil
  then show ?case by simp
next
  case (Cons x ds)
  from Cons.prems(1) obtain w1 where
    s: "create_device_node (d_name x) (d_major x) (d_minor x) 438 False w = (Return (), w1)"
    and r: "for_each (\<lambda>d. create_device_node (d_name d) (d_major d) (d_minor d) 438 False) ds w1
             = (Return (), w')"
    by (auto simp: io_then_Return_iff)
  show ?case
  proof (cases "d \<in> set ds")
    case True
    then show ?thesis using Cons.IH [OF r] by simp
  next
    case False
    then have "d = x" using Cons.prems(2) by simp
    then have "os_nodes w1 (joinpath ''/dev'' (d_name d)) =
           Some \<lparr>st_mode = S_IFCHR OR (438 AND S_IALLUGO), st_rdev = makedev (d_major d) (d_minor d)\<rparr>"
      using create_device_node_Return(2) [OF s] by simp
    then show ?thesis by (rule default_nodes_keep [OF r])
  qed
qed

text \<open>
  C1, as amended. When \<open>create_default_dev_nodes\<close> returns, every entry of
  \<open>CONTAINER_DEVICE_NODES\<close> has a character special file at \<open>/dev/<name>\<close> with the
  device number made from its \<open>major\<close> and \<open>minor\<close> and with permission mode
  \<open>0o666\<close>. The kind and the mode are the ones \<open>create_default_dev_nodes\<close> passes for
  every entry; nothing is read from the entry beyond \<open>name\<close>, \<open>major\<close> and \<open>minor\<close>.
\<close>

theorem create_default_dev_nodes_char_0666:
  assumes "create_default_dev_nodes cfg w = (Return (), w')"
    and "d \<in> set (CONTAINER_DEVICE_NODES cfg)"
  shows "stat_ifmt w' (joinpath ''/dev'' (d_name d)) = Some S_IFCHR \<and>
         stat_imode w' (joinpath ''/dev'' (d_name d)) = Some 438 \<and>
         stat_rdev w' (joinpath ''/dev'' (d_name d)) = Some (makedev (d_major d) (d_minor d))"
proof -
  have n: "os_nodes w' (joinpath ''/dev'' (d_name d)) =
           Some \<lparr>st_mode = S_IFCHR OR (438 AND S_IALLUGO), st_rdev = makedev (d_major d) (d_minor d)\<rparr>"
    using assms default_nodes_made by (simp add: create_default_dev_nodes_def)
  show ?thesis
    unfolding stat_ifmt_def stat_imode_def stat_rdev_def n
    by (simp add: S_IFCHR_def S_IALLUGO_def S_IFMT_def)
qed

lemma block_run:
  "create_default_dev_nodes block_cfg sample_world =
     (Return (), sample_world\<lparr>os_trace := [Mknod ''/dev/sda'' 8192 2048, Chmod ''/dev/sda'' 438],
        os_nodes := [''/dev/sda'' \<mapsto> \<lparr>st_mode = 8630, st_rdev = 2048\<rparr>]\<rparr>)"
  by (simp add: create_default_dev_nodes_def block_cfg_def block_entry_def sample_cfg_def
      create_device_node_def sample_world_def io_then_def io_bind_def io_return_def syscall_def
      joinpath_def makedev_def S_IFCHR_def S_IFMT_def S_IALLUGO_def Let_def)

text \<open>
  C1, as stated, fails for an entry that specifies a block device or a mode other than
  \<open>0o666\<close>: the node made for \<open>block_entry\<close> is a character device with mode
  \<open>0o666\<close>.
\<close>

theorem default_dev_nodes_ignore_kind_and_mode:
  "block_entry \<in> set (CONTAINER_DEVICE_NODES block_cfg) \<and>
   fst (create_default_dev_nodes block_cfg sample_world) = Return () \<and>
   stat_ifmt (snd (create_default_dev_nodes block_cfg sample_world))
       (joinpath ''/dev'' (d_name block_entry)) \<noteq> Some (kind_bits (d_kind block_entry)) \<and>
   stat_imode (snd (create_default_dev_nodes block_cfg sample_world))
       (joinpath ''/dev'' (d_name block_entry)) \<noteq> Some (d_mode block_entry)"
  unfolding block_run
  by (simp add: block_cfg_def block_entry_def stat_ifmt_def stat_imode_def kind_bits_def
      joinpath_def S_IFBLK_def S_IFMT_def S_IALLUGO_def sample_world_def)

theorem create_default_dev_nodes_char_0666_witness:
  "fst (create_default_dev_nodes block_cfg sample_world) = Return () \<and>
   block_entry \<in> set (CONTAINER_DEVICE_NODES block_cfg) \<and>
   stat_ifmt (snd (create_default_dev_nodes block_cfg sample_world)) ''/dev/sda'' = Some 8192 \<and>
   stat_imode (snd (create_default_dev_nodes block_cfg sample_world)) ''/dev/sda'' = Some 438 \<and>
   stat_rdev (snd (create_default_dev_nodes block_cfg sample_world)) ''/dev/sda'' = Some 2048"
proof -
  have m: "block_entry \<in> set (CONTAINER_DEVICE_NODES block_cfg)"
    by (simp add: block_cfg_def)
  show ?thesis
    using create_default_dev_nodes_char_0666 [OF block_run m] m
    unfolding block_run
    by (simp add: block_entry_def joinpath_def S_IFCHR_def makedev_def)
qed

subsection \<open>Namespaces\<close>

lemma namespaces_loop_eq:
  "namespaces_loop cfg self ns acc w =
     (Return (fold (\<lambda>e a. a OR snd e)
        (filter (\<lambda>e. eligible cfg self e \<and> os_exists w (joinpath ''/proc/self/ns'' (fst e))) ns) acc),
      w\<lparr>os_log := os_log w @
        map (\<lambda>e. (WARNING, ''Namespace type '' @ fst e @ '' not supported on this system''))
          (filter (\<lambda>e. eligible cfg self e \<and> \<not> os_exists w (joinpath ''/proc/self/ns'' (fst e))) ns)\<rparr>)"
proof (induction ns arbitrary: acc w)
  case Nil
  then show ?case by (simp add: io_return_def)
next
  case (Cons e ns)
  obtain name flag where e: "e = (name, flag)" by (cases e)
  show ?case
    unfolding e
    by (simp add: Cons.IH eligible_def io_bind_def io_then_def path_exists_def logger_def)
qed

lemma create_namespaces_eq:
  "create_namespaces cfg self w =
     syscall (Unshare (fold (\<lambda>e a. a OR snd e)
        (filter (\<lambda>e. eligible cfg self e \<and> os_exists w (joinpath ''/proc/self/ns'' (fst e)))
           (NAMESPACES cfg)) 0))
      (w\<lparr>os_log := os_log w @
        map (\<lambda>e. (WARNING, ''Namespace type '' @ fst e @ '' not supported on this system''))
          (filter (\<lambda>e. eligible cfg self e \<and> \<not> os_exists w (joinpath ''/proc/self/ns'' (fst e)))
             (NAMESPACES cfg))\<rparr>)"
  by (simp add: create_namespaces_def io_bind_def namespaces_loop_eq)

lemma syscall_trace: "os_trace (snd (syscall c w)) = os_trace w @ [c]"
  by (cases c) (auto simp: syscall_def Let_def split: option.splits signum.splits)

lemma syscall_log: "os_log (snd (syscall c w)) = os_log w"
  by (cases c) (auto simp: syscall_def Let_def split: option.splits signum.splits)

lemma fold_or_clear:
  fixes x :: int
  assumes "\<forall>e \<in> set es. snd e AND x = 0" and "a AND x = 0"
  shows "fold (\<lambda>e a. a OR snd e) es a AND x = 0"
  using assms
proof (induction es arbitrary: a)
  case Nil
  then show ?case by simp
next
  case (Cons e es)
  have "(a OR snd e) AND x = 0"
    using Cons.prems by (simp add: bit.conj_disj_distrib2)
  then show ?case using Cons.IH Cons.prems(1) by simp
qed

text \<open>
  C4. Whatever \<open>isolate_networking\<close> is and whichever namespace kinds the kernel
  exposes, \<open>create_namespaces\<close> attempts one \<open>unshare\<close> and its flags have no bit of
  \<open>CLONE_NEWPID\<close>, for a table in which the other kinds' flags share no bit with
  \<open>CLONE_NEWPID\<close>.
\<close>

theorem unshare_never_requests_pid:
  assumes "\<forall>e \<in> set (NAMESPACES cfg).
             snd e \<noteq> CLONE_NEWPID cfg \<longrightarrow> snd e AND CLONE_NEWPID cfg = 0"
  shows "\<exists>flags. os_trace (snd (create_namespaces cfg self w)) = os_trace w @ [Unshare flags] \<and>
           flags AND CLONE_NEWPID cfg = 0"
proof -
  let ?es = "filter (\<lambda>e. eligible cfg self e \<and> os_exists w (joinpath ''/proc/self/ns'' (fst e)))
               (NAMESPACES cfg)"
  have "\<forall>e \<in> set ?es. snd e AND CLONE_NEWPID cfg = 0"
    using assms by (auto simp: eligible_def)
  then have "fold (\<lambda>e a. a OR snd e) ?es 0 AND CLONE_NEWPID cfg = 0"
    by (rule fold_or_clear) simp
  then show ?thesis
    by (simp add: create_namespaces_eq syscall_trace)
qed

theorem unshare_never_requests_pid_witness:
  "os_trace (snd (create_namespaces sample_cfg sample_self sample_world)) = [Unshare 1073872896] \<and>
   (1073872896::int) AND CLONE_NEWPID sample_cfg = 0 \<and> CLONE_NEWPID sample_cfg \<noteq> 0"
proof -
  have h: "\<forall>e \<in> set (NAMESPACES sample_cfg).
             snd e \<noteq> CLONE_NEWPID sample_cfg \<longrightarrow> snd e AND CLONE_NEWPID sample_cfg = 0"
    by (simp add: sample_cfg_def)
  have t: "os_trace (snd (create_namespaces sample_cfg sample_self sample_world)) = [Unshare 1073872896]"
    by (simp add: create_namespaces_eq syscall_trace eligible_def sample_cfg_def sample_self_def
        sample_world_def)
  show ?thesis
    using unshare_never_requests_pid [OF h, of sample_self sample_world] t
    by (simp add: sample_cfg_def)
qed

text \<open>
  C5. When \<open>isolate_networking\<close> is false the flags of the \<open>unshare\<close> call have no bit
  of \<open>CLONE_NEWNET\<close>, whether or not the kernel exposes the network namespace, for a
  table in which the other kinds' flags share no bit with \<open>CLONE_NEWNET\<close>.
\<close>

theorem unshare_without_net:
  assumes "\<not> isolate_networking self"
    and "\<forall>e \<in> set (NAMESPACES cfg).
             snd e \<noteq> CLONE_NEWNET cfg \<longrightarrow> snd e AND CLONE_NEWNET cfg = 0"
  shows "\<exists>flags. os_trace (snd (create_namespaces cfg self w)) = os_trace w @ [Unshare flags] \<and>
           flags AND CLONE_NEWNET cfg = 0"
proof -
  let ?es = "filter (\<lambda>e. eligible cfg self e \<and> os_exists w (joinpath ''/proc/self/ns'' (fst e)))
               (NAMESPACES cfg)"
  have "\<forall>e \<in> set ?es. snd e AND CLONE_NEWNET cfg = 0"
    using assms by (auto simp: eligible_def)
  then have "fold (\<lambda>e a. a OR snd e) ?es 0 AND CLONE_NEWNET cfg = 0"
    by (rule fold_or_clear) simp
  then show ?thesis
    by (simp add: create_namespaces_eq syscall_trace)
qed

theorem unshare_without_net_witness:
  "\<not> isolate_networking host_net_self \<and>
   os_exists sample_world (joinpath ''/proc/self/ns'' ''net'') \<and>
   os_trace (snd (create_namespaces sample_cfg host_net_self sample_world)) = [Unshare 131072] \<and>
   (131072::int) AND CLONE_NEWNET sample_cfg = 0 \<and> CLONE_NEWNET sample_cfg \<noteq> 0"
proof -
  have i: "\<not> isolate_networking host_net_self"
    by (simp add: host_net_self_def)
  have h: "\<forall>e \<in> set (NAMESPACES sample_cfg).
             snd e \<noteq> CLONE_NEWNET sample_cfg \<longrightarrow> snd e AND CLONE_NEWNET sample_cfg = 0"
    by (simp add: sample_cfg_def)
  have t: "os_trace (snd (create_namespaces sample_cfg host_net_self sample_world)) = [Unshare 131072]"
    by (simp add: create_namespaces_eq syscall_trace eligible_def sample_cfg_def host_net_self_def
        sample_world_def)
  show ?thesis
    using unshare_without_net [OF i h, of sample_world] t i
    by (simp add: sample_cfg_def sample_world_def)
qed

lemma filter_removeAll_unmatched: "\<not> P x \<Longrightarrow> filter P (removeAll x xs) = filter P xs"
  by (induction xs) auto

lemma syscall_outcome:
  "fst (syscall (Unshare n) w) = (if os_fails w (Unshare n) then Raise (OSError (Unshare n)) else Return ())"
  by (simp add: syscall_def Let_def)

text \<open>
  C6, as amended. For an entry of \<open>NAMESPACES\<close> whose flag is not \<open>CLONE_NEWPID\<close>, and
  not \<open>CLONE_NEWNET\<close> while \<open>isolate_networking\<close> is false: if its path under
  \<open>/proc/self/ns\<close> does not exist, the warning naming it is logged, \<open>unshare\<close> is still
  attempted, with the flags that the table without this entry gives, and
  \<open>create_namespaces\<close> raises only if that \<open>unshare\<close> call is refused.
\<close>

theorem unsupported_namespace_is_skipped:
  assumes "(name, flag) \<in> set (NAMESPACES cfg)"
    and "flag \<noteq> CLONE_NEWPID cfg"
    and "flag = CLONE_NEWNET cfg \<longrightarrow> isolate_networking self"
    and "\<not> os_exists w (joinpath ''/proc/self/ns'' name)"
  shows "\<exists>flags msgs.
           os_log (snd (create_namespaces cfg self w)) = os_log w @ msgs \<and>
           (WARNING, ''Namespace type '' @ name @ '' not supported on this system'') \<in> set msgs \<and>
           os_trace (snd (create_namespaces cfg self w)) = os_trace w @ [Unshare flags] \<and>
           os_trace (snd (create_namespaces
               (cfg\<lparr>NAMESPACES := removeAll (name, flag) (NAMESPACES cfg)\<rparr>) self w))
             = os_trace w @ [Unshare flags] \<and>
           fst (create_namespaces cfg self w) =
             (if os_fails w (Unshare flags) then Raise (OSError (Unshare flags)) else Return ())"
proof -
  let ?cfg' = "cfg\<lparr>NAMESPACES := removeAll (name, flag) (NAMESPACES cfg)\<rparr>"
  let ?P = "\<lambda>e. eligible cfg self e \<and> os_exists w (joinpath ''/proc/self/ns'' (fst e))"
  let ?Q = "\<lambda>e. eligible cfg self e \<and> \<not> os_exists w (joinpath ''/proc/self/ns'' (fst e))"
  let ?msg = "\<lambda>e. (WARNING, ''Namespace type '' @ fst e @ '' not supported on this system'')"
  let ?flags = "fold (\<lambda>e a. a OR snd e) (filter ?P (NAMESPACES cfg)) 0"
  let ?msgs = "map ?msg (filter ?Q (NAMESPACES cfg))"
  have el: "eligible cfg self (name, flag)"
    using assms(2,3) by (auto simp: eligible_def)
  have "?Q (name, flag)" using el assms(4) by simp
  then have "(name, flag) \<in> set (filter ?Q (NAMESPACES cfg))"
    using assms(1) by simp
  then have "?msg (name, flag) \<in> ?msg ` set (filter ?Q (NAMESPACES cfg))"
    by (rule imageI)
  then have warned: "(WARNING, ''Namespace type '' @ name @ '' not supported on this system'') \<in> set ?msgs"
    by simp
  have eq': "eligible ?cfg' self = eligible cfg self"
    by (rule ext) (simp add: eligible_def)
  have "\<not> ?P (name, flag)" using assms(4) by simp
  then have same: "filter ?P (removeAll (name, flag) (NAMESPACES cfg)) = filter ?P (NAMESPACES cfg)"
    by (rule filter_removeAll_unmatched)
  have t': "os_trace (snd (create_namespaces ?cfg' self w)) = os_trace w @ [Unshare ?flags]"
    by (simp add: create_namespaces_eq syscall_trace eq' same)
  have t: "os_trace (snd (create_namespaces cfg self w)) = os_trace w @ [Unshare ?flags]"
    by (simp add: create_namespaces_eq syscall_trace)
  have l: "os_log (snd (create_namespaces cfg self w)) = os_log w @ ?msgs"
    by (simp add: create_namespaces_eq syscall_log)
  have o: "fst (create_namespaces cfg self w) =
             (if os_fails w (Unshare ?flags) then Raise (OSError (Unshare ?flags)) else Return ())"
    by (simp add: create_namespaces_eq syscall_outcome)
  show ?thesis
    using l warned t t' o by blast
qed

lemma net_run:
  "create_namespaces net_cfg host_net_self bare_world =
     (Return (), bare_world\<lparr>os_trace := [Unshare 0]\<rparr>)"
  by (simp add: create_namespaces_eq eligible_def net_cfg_def host_net_self_def bare_world_def
      sample_cfg_def sample_self_def sample_world_def syscall_def)

text \<open>
  C6, as stated, fails for the network entry when \<open>isolate_networking\<close> is false: the
  loop passes over it before it looks at \<open>/proc/self/ns/net\<close>, so nothing is logged.
\<close>

theorem no_warning_for_net_when_not_isolating:
  "(''net'', CLONE_NEWNET net_cfg) \<in> set (NAMESPACES net_cfg) \<and>
   CLONE_NEWNET net_cfg \<noteq> CLONE_NEWPID net_cfg \<and>
   \<not> os_exists bare_world (joinpath ''/proc/self/ns'' ''net'') \<and>
   os_log bare_world = [] \<and>
   os_log (snd (create_namespaces net_cfg host_net_self bare_world)) = []"
  unfolding net_run
  by (simp add: net_cfg_def bare_world_def sample_cfg_def sample_world_def)

theorem unsupported_namespace_is_skipped_witness:
  "(''mnt'', 131072) \<in> set (NAMESPACES sample_cfg) \<and>
   \<not> os_exists bare_world (joinpath ''/proc/self/ns'' ''mnt'') \<and>
   (\<exists>flags msgs.
      os_log (snd (create_namespaces sample_cfg sample_self bare_world)) = os_log bare_world @ msgs \<and>
      (WARNING, ''Namespace type mnt not supported on this system'') \<in> set msgs \<and>
      os_trace (snd (create_namespaces sample_cfg sample_self bare_world))
        = os_trace bare_world @ [Unshare flags] \<and>
      fst (create_namespaces sample_cfg sample_self bare_world) = Return ())"
proof -
  have a: "(''mnt'', 131072) \<in> set (NAMESPACES sample_cfg)"
    by (simp add: sample_cfg_def)
  have b: "(131072::int) \<noteq> CLONE_NEWPID sample_cfg"
    by (simp add: sample_cfg_def)
  have c: "(131072::int) = CLONE_NEWNET sample_cfg \<longrightarrow> isolate_networking sample_self"
    by (simp add: sample_cfg_def)
  have d: "\<not> os_exists bare_world (joinpath ''/proc/self/ns'' ''mnt'')"
    by (simp add: bare_world_def)
  have f: "\<And>c. \<not> os_fails bare_world c"
    by (simp add: bare_world_def sample_world_def)
  show ?thesis
    using unsupported_namespace_is_skipped [OF a b c d] a d
    by (simp add: f) blast
qed

subsection \<open>What the setup steps leave alone\<close>

lemma frame_refl: "frame w w"
  by (simp add: frame_def)

lemma frame_trans: "frame w w1 \<Longrightarrow> frame w1 w2 \<Longrightarrow> frame w w2"
  by (fastforce simp: frame_def)

lemma frame_log: "frame w (w\<lparr>os_log := l\<rparr>)"
  by (simp add: frame_def)

lemma setup_step_return: "setup_step (io_return x)"
  by (simp add: setup_step_def io_return_def frame_refl)

lemma setup_step_logger: "setup_step (logger l msg)"
  by (simp add: setup_step_def logger_def frame_log)

lemma setup_step_path_exists: "setup_step (path_exists p)"
  by (simp add: setup_step_def path_exists_def frame_refl)

lemma setup_step_syscall:
  assumes "\<And>fd d. c \<noteq> Write fd d"
  shows "setup_step (syscall c)"
  using assms
  by (cases c)
    (auto simp: setup_step_def syscall_def frame_def Let_def split: option.splits signum.splits)

lemma setup_step_check_output: "setup_step (check_output argv)"
  by (simp add: setup_step_def check_output_def frame_def Let_def)

lemma setup_step_bind:
  assumes "setup_step m" and "\<And>x. setup_step (f x)"
  shows "setup_step (io_bind m f)"
  unfolding setup_step_def
proof
  fix w
  have m: "frame w (snd (m w))" "fst (m w) \<noteq> Block"
    using assms(1) by (simp_all add: setup_step_def)
  show "frame w (snd (io_bind m f w)) \<and> fst (io_bind m f w) \<noteq> Block"
  proof (cases "fst (m w)")
    case (Return x)
    then have e: "io_bind m f w = f x (snd (m w))"
      by (cases "m w") (simp add: io_bind_def)
    have "frame (snd (m w)) (snd (f x (snd (m w))))" "fst (f x (snd (m w))) \<noteq> Block"
      using assms(2) [of x] by (simp_all add: setup_step_def)
    then show ?thesis using m(1) e by (auto intro: frame_trans)
  next
    case (Raise err)
    then have "io_bind m f w = (Raise err, snd (m w))"
      by (cases "m w") (simp add: io_bind_def)
    then show ?thesis using m(1) by simp
  next
    case Block
    then show ?thesis using m(2) by simp
  qed
qed

lemma setup_step_then: "setup_step m \<Longrightarrow> setup_step k \<Longrightarrow> setup_step (io_then m k)"
  by (simp add: io_then_def setup_step_bind)

lemma setup_step_for_each:
  assumes "\<And>x. setup_step (body x)"
  shows "setup_step (for_each body xs)"
  by (induction xs) (simp_all add: setup_step_return setup_step_then assms)

lemma setup_step_enable_zombie_reaping: "setup_step enable_zombie_reaping"
  by (simp add: enable_zombie_reaping_def setup_step_syscall)

lemma setup_step_create_namespaces: "setup_step (create_namespaces cfg self)"
proof -
  have "setup_step (namespaces_loop cfg self ns acc)" for ns acc
    by (simp add: setup_step_def namespaces_loop_eq frame_log)
  then show ?thesis
    by (simp add: create_namespaces_def setup_step_bind setup_step_syscall)
qed

lemma setup_step_setup_root_mount: "setup_step (setup_root_mount cfg self)"
  by (simp add: setup_root_mount_def setup_step_then setup_step_syscall)

lemma setup_step_mount_defaults: "setup_step (mount_defaults cfg)"
  by (simp add: mount_defaults_def mount_one_def Let_def setup_step_for_each setup_step_then
      setup_step_syscall)

lemma setup_step_create_device_node: "setup_step (create_device_node name major minor mode blk)"
  by (simp add: create_device_node_def Let_def setup_step_then setup_step_syscall)

lemma setup_step_create_default_dev_nodes: "setup_step (create_default_dev_nodes cfg)"
  by (simp add: create_default_dev_nodes_def setup_step_for_each setup_step_create_device_node)

lemma setup_step_create_loop_devices: "setup_step create_loop_devices"
  by (simp add: create_loop_devices_def setup_step_then setup_step_for_each
      setup_step_create_device_node)

lemma setup_step_tmpfs_one: "setup_step (tmpfs_one m)"
  by (simp add: tmpfs_one_def setup_step_bind setup_step_check_output setup_step_logger
      setup_step_return)

lemma setup_step_create_tmpfs_dirs: "setup_step (create_tmpfs_dirs cfg)"
  by (simp add: create_tmpfs_dirs_def setup_step_bind setup_step_path_exists
      setup_step_for_each setup_step_tmpfs_one setup_step_logger)

lemma setup_step_umount_old_root: "setup_step (umount_old_root cfg)"
  by (simp add: umount_old_root_def setup_step_then setup_step_syscall)

lemma setup_step_steps_before_tmpfs: "setup_step (steps_before_tmpfs cfg self)"
  by (simp add: steps_before_tmpfs_def setup_step_then setup_step_syscall
      setup_step_enable_zombie_reaping setup_step_create_namespaces setup_step_setup_root_mount
      setup_step_mount_defaults setup_step_create_default_dev_nodes
      setup_step_create_loop_devices)

lemma setup_step_setup_steps: "setup_step (setup_steps cfg self)"
  by (simp add: setup_steps_def setup_step_then setup_step_syscall
      setup_step_steps_before_tmpfs setup_step_create_tmpfs_dirs setup_step_umount_old_root)

lemma run_eq:
  "run cfg self w =
     (if os_pid w \<noteq> 1
      then (Raise (ValueError ''We are not actually PID1, exiting for safety reasons''), w)
      else io_then (setup_steps cfg self) (handshake self) w)"
  by (simp add: run_def io_bind_def non_caching_getpid_def io_raise_def setup_steps_def
      steps_before_tmpfs_def handshake_def io_then_assoc)

subsection \<open>The handshake\<close>

lemma setup_frame:
  "frame w (snd (setup_steps cfg self w))" "fst (setup_steps cfg self w) \<noteq> Block"
  using setup_step_setup_steps [of cfg self] by (simp_all add: setup_step_def)

lemma handshake_eq:
  "handshake self v =
     (if os_fails v (Write (control_write self) ''RDY'')
      then (Raise (OSError (Write (control_write self) ''RDY'')),
            v\<lparr>os_trace := os_trace v @ [Write (control_write self) ''RDY'']\<rparr>)
      else if os_fails v (Read (control_read self) 1)
      then (Raise (OSError (Read (control_read self) 1)),
            v\<lparr>os_trace := os_trace v @ [Write (control_write self) ''RDY'', Read (control_read self) 1],
              os_output := os_output v @ [(control_write self, ''RDY'')],
              os_log := os_log v @ [(DEBUG, ''Container started'')]\<rparr>)
      else case os_read_data v (control_read self) of
        None \<Rightarrow> (Block,
            v\<lparr>os_trace := os_trace v @ [Write (control_write self) ''RDY'', Read (control_read self) 1],
              os_output := os_output v @ [(control_write self, ''RDY'')],
              os_log := os_log v @ [(DEBUG, ''Container started'')]\<rparr>)
      | Some d \<Rightarrow> (Return 0,
            v\<lparr>os_trace := os_trace v @ [Write (control_write self) ''RDY'', Read (control_read self) 1],
              os_output := os_output v @ [(control_write self, ''RDY'')],
              os_log := os_log v @ [(DEBUG, ''Container started''),
                (DEBUG, ''Control pipe closed, stopping'')]\<rparr>))"
  by (simp add: handshake_def os_write_def os_read_def io_then_def io_bind_def io_return_def
      syscall_def logger_def Let_def split: option.splits)

text \<open>
  C9. Once the setup steps have returned and the marker has been written, \<open>run\<close>
  returns 0 as soon as the read on \<open>control_read\<close> returns, whatever it returns, the
  empty data of end of stream included; while the read does not return, neither does
  \<open>run\<close>.
\<close>

theorem run_returns_zero_when_read_returns:
  assumes "os_pid w = 1"
    and "fst (setup_steps cfg self w) = Return ()"
    and "\<not> os_fails w (Write (control_write self) ''RDY'')"
    and "\<not> os_fails w (Read (control_read self) 1)"
  shows "fst (run cfg self w) =
           (case os_read_data w (control_read self) of None \<Rightarrow> Block | Some d \<Rightarrow> Return 0)"
proof -
  let ?v = "snd (setup_steps cfg self w)"
  have f: "os_fails ?v = os_fails w" "os_read_data ?v = os_read_data w"
    using setup_frame(1) [of w cfg self] by (simp_all add: frame_def)
  have "setup_steps cfg self w = (Return (), ?v)"
    using assms(2) by (cases "setup_steps cfg self w") simp
  then have "run cfg self w = handshake self ?v"
    using assms(1) by (simp add: run_eq io_then_Return)
  then show ?thesis
    using assms(3,4) by (simp add: handshake_eq f split: option.splits)
qed

lemma sample_setup: "fst (setup_steps sample_cfg sample_self sample_world) = Return ()"
  by code_simp

theorem run_returns_zero_when_read_returns_witness:
  "os_pid sample_world = 1 \<and>
   fst (setup_steps sample_cfg sample_self sample_world) = Return () \<and>
   os_read_data sample_world (control_read sample_self) = Some [] \<and>
   fst (run sample_cfg sample_self sample_world) = Return 0"
proof -
  have p: "os_pid sample_world = 1" by (simp add: sample_world_def)
  have w: "\<not> os_fails sample_world (Write (control_write sample_self) ''RDY'')"
    by (simp add: sample_world_def)
  have r: "\<not> os_fails sample_world (Read (control_read sample_self) 1)"
    by (simp add: sample_world_def)
  have d: "os_read_data sample_world (control_read sample_self) = Some []"
    by (simp add: sample_world_def)
  show ?thesis
    using run_returns_zero_when_read_returns [OF p sample_setup w r] p sample_setup d
    by simp
qed

subsection \<open>Populating the tmpfs mounts\<close>

lemma fst_io_then_Raise: "fst (m w) = Raise e \<Longrightarrow> fst (io_then m k w) = Raise e"
  by (cases "m w") (simp add: io_then_def io_bind_def)

lemma io_then_fst_Return: "fst (m w) = Return x \<Longrightarrow> io_then m k w = k (snd (m w))"
  by (cases "m w") (simp add: io_then_def io_bind_def)

lemma check_output_when_sigchld_ignored:
  assumes "os_sigchld w = SIG_IGN" and "\<not> os_fails w (Check_output argv)"
  shows "fst (check_output argv w) = Return (snd (os_status w argv))"
  using assms by (simp add: check_output_def Let_def)

text \<open>
  Once \<open>SIGCHLD\<close> is ignored, no exit status of the tool makes \<open>create_tmpfs_dirs\<close>
  raise \<open>CalledProcessError\<close>.
\<close>

lemma tmpfs_one_when_sigchld_ignored:
  assumes "os_sigchld w = SIG_IGN"
  shows "os_sigchld (snd (tmpfs_one m w)) = SIG_IGN \<and>
         (\<forall>rc argv. fst (tmpfs_one m w) \<noteq> Raise (CalledProcessError rc argv))"
  using assms
  by (simp add: tmpfs_one_def io_bind_def io_return_def check_output_def logger_def Let_def)

lemma tmpfs_loop_when_sigchld_ignored:
  assumes "os_sigchld w = SIG_IGN"
  shows "\<forall>rc argv. fst (for_each tmpfs_one ms w) \<noteq> Raise (CalledProcessError rc argv)"
  using assms
proof (induction ms arbitrary: w)
  case Nil
  then show ?case by (simp add: io_return_def)
next
  case (Cons m ms)
  have s: "os_sigchld (snd (tmpfs_one m w)) = SIG_IGN"
    and n: "\<forall>rc argv. fst (tmpfs_one m w) \<noteq> Raise (CalledProcessError rc argv)"
    using tmpfs_one_when_sigchld_ignored [OF Cons.prems] by simp_all
  show ?case
  proof (cases "fst (tmpfs_one m w)")
    case (Return u)
    then have "io_then (tmpfs_one m) (for_each tmpfs_one ms) w =
        for_each tmpfs_one ms (snd (tmpfs_one m w))"
      by (simp add: io_then_fst_Return)
    then show ?thesis using Cons.IH [OF s] by simp
  next
    case (Raise e)
    then have "fst (io_then (tmpfs_one m) (for_each tmpfs_one ms) w) = Raise e"
      by (rule fst_io_then_Raise)
    then show ?thesis using n Raise by simp
  next
    case Block
    then have "io_then (tmpfs_one m) (for_each tmpfs_one ms) w = (Block, snd (tmpfs_one m w))"
      by (cases "tmpfs_one m w") (simp add: io_then_def io_bind_def)
    then show ?thesis by simp
  qed
qed

lemma create_tmpfs_dirs_when_sigchld_ignored:
  assumes "os_sigchld w = SIG_IGN"
  shows "fst (create_tmpfs_dirs cfg w) \<noteq> Raise (CalledProcessError rc argv)"
  using tmpfs_loop_when_sigchld_ignored [OF assms]
  by (simp add: create_tmpfs_dirs_def io_bind_def path_exists_def logger_def)

text \<open>
  C10. The code does not do this. \<open>run\<close> has set \<open>SIGCHLD\<close> to \<open>SIG_IGN\<close> before it
  reaches \<open>create_tmpfs_dirs\<close>, so the exit status of \<open>/bin/systemd-tmpfiles\<close> is lost
  and \<open>check_output\<close> returns. In \<open>failing_world\<close> the tool exists and exits with status
  1 for the tmpfs mount \<open>/tmp\<close>: \<open>create_tmpfs_dirs\<close> on its own, under the default
  disposition, raises \<open>CalledProcessError\<close>, but the run calls the tool, goes on, writes
  the marker and returns 0.
\<close>

theorem tmpfiles_exit_status_is_lost:
  "os_exists failing_world ''/bin/systemd-tmpfiles'' \<and>
   fst (os_status failing_world [''/bin/systemd-tmpfiles'', ''--create'', ''--prefix'', ''/tmp'']) = 1 \<and>
   os_sigchld failing_world = SIG_DFL \<and>
   fst (create_tmpfs_dirs sample_cfg failing_world) =
     Raise (CalledProcessError 1 [''/bin/systemd-tmpfiles'', ''--create'', ''--prefix'', ''/tmp'']) \<and>
   Check_output [''/bin/systemd-tmpfiles'', ''--create'', ''--prefix'', ''/tmp'']
     \<in> set (os_trace (snd (run sample_cfg sample_self failing_world))) \<and>
   fst (run sample_cfg sample_self failing_world) = Return 0 \<and>
   os_output (snd (run sample_cfg sample_self failing_world)) = [(4, ''RDY'')]"
  by code_simp

subsection \<open>The order of the calls\<close>

lemma calls_within_then:
  assumes "calls_within w (m w) cs1"
    and "\<And>x w1. m w = (Return x, w1) \<Longrightarrow> calls_within w1 (k w1) cs2"
  shows "calls_within w (io_then m k w) (cs1 @ cs2)"
proof -
  obtain n where n: "os_trace (snd (m w)) = os_trace w @ take n cs1"
    and full: "\<And>x. fst (m w) = Return x \<Longrightarrow> length cs1 \<le> n"
    using assms(1) by (auto simp: calls_within_def)
  show ?thesis
  proof (cases "fst (m w)")
    case (Return x)
    then have mw: "m w = (Return x, snd (m w))" by (cases "m w") simp
    have t1: "os_trace (snd (m w)) = os_trace w @ cs1"
      using n full [OF Return] by simp
    obtain j where j: "os_trace (snd (k (snd (m w)))) = os_trace (snd (m w)) @ take j cs2"
      and jfull: "\<And>y. fst (k (snd (m w))) = Return y \<Longrightarrow> length cs2 \<le> j"
      using assms(2) [OF mw] by (auto simp: calls_within_def)
    have e: "io_then m k w = k (snd (m w))"
      using mw by (rule io_then_Return)
    have "os_trace (snd (io_then m k w)) = os_trace w @ take (length cs1 + j) (cs1 @ cs2)"
      by (simp add: e j t1)
    moreover have "\<And>y. fst (io_then m k w) = Return y \<Longrightarrow> length (cs1 @ cs2) \<le> length cs1 + j"
      using jfull by (simp add: e)
    ultimately show ?thesis
      unfolding calls_within_def by blast
  next
    case (Raise err)
    then have e: "io_then m k w = (Raise err, snd (m w))"
      by (cases "m w") (simp add: io_then_def io_bind_def)
    have "os_trace (snd (io_then m k w)) = os_trace w @ take (min n (length cs1)) (cs1 @ cs2)"
      by (simp add: e n min_def)
    then show ?thesis
      unfolding calls_within_def using e by (metis fst_conv outcome.distinct(1))
  next
    case Block
    then have e: "io_then m k w = (Block, snd (m w))"
      by (cases "m w") (simp add: io_then_def io_bind_def)
    have "os_trace (snd (io_then m k w)) = os_trace w @ take (min n (length cs1)) (cs1 @ cs2)"
      by (simp add: e n min_def)
    then show ?thesis
      unfolding calls_within_def using e by (metis fst_conv outcome.distinct(3))
  qed
qed

lemma calls_within_then_ex:
  assumes "calls_within w (m w) cs1"
    and "\<And>v. \<exists>cs2. R cs2 \<and> calls_within v (k v) cs2"
  shows "\<exists>cs2. R cs2 \<and> calls_within w (io_then m k w) (cs1 @ cs2)"
proof -
  obtain cs2 where c: "R cs2" "calls_within (snd (m w)) (k (snd (m w))) cs2"
    using assms(2) by blast
  have "calls_within w (io_then m k w) (cs1 @ cs2)"
    using assms(1) c(2) by (intro calls_within_then) auto
  then show ?thesis using c(1) by blast
qed

lemma calls_within_syscall: "calls_within w (syscall c w) [c]"
proof -
  have "os_trace (snd (syscall c w)) = os_trace w @ take 1 [c]"
    by (simp add: syscall_trace)
  then show ?thesis unfolding calls_within_def by (metis length_Cons list.size(3) One_nat_def le_refl)
qed

lemma calls_within_log:
  "calls_within (w\<lparr>os_log := l\<rparr>) r cs \<Longrightarrow> calls_within w r cs"
  by (simp add: calls_within_def)

lemma calls_within_create_namespaces:
  "\<exists>flags. calls_within w (create_namespaces cfg self w) [Unshare flags]"
  unfolding create_namespaces_eq
  by (rule exI, rule calls_within_log, rule calls_within_syscall)

lemma calls_within_setup_root_mount:
  "calls_within w (setup_root_mount cfg self w)
     [Mount ''none'' ''/'' None (MS_REC cfg OR MS_SLAVE cfg) None,
      Mkdir (joinpath (root_dir self) ''old_root''), Chdir (root_dir self),
      Pivot_root ''.'' ''old_root'', Chroot ''.'']"
proof -
  have "calls_within w (setup_root_mount cfg self w)
     ([Mount ''none'' ''/'' None (MS_REC cfg OR MS_SLAVE cfg) None] @
      [Mkdir (joinpath (root_dir self) ''old_root'')] @ [Chdir (root_dir self)] @
      [Pivot_root ''.'' ''old_root''] @ [Chroot ''.''])"
    unfolding setup_root_mount_def
    by (intro calls_within_then calls_within_syscall)
  then show ?thesis by simp
qed

lemma calls_within_any:
  assumes "os_trace (snd r) = os_trace w @ es"
  shows "calls_within w r es"
proof -
  have "os_trace (snd r) = os_trace w @ take (length es) es"
    using assms by simp
  then show ?thesis unfolding calls_within_def by blast
qed

lemma handshake_trace: "\<exists>es. os_trace (snd (handshake self v)) = os_trace v @ es"
  by (simp add: handshake_eq split: option.splits)

lemma after_pivot_calls:
  fixes cfg self
  defines "late \<equiv> io_then (mount_defaults cfg)
        (io_then (create_default_dev_nodes cfg)
        (io_then create_loop_devices
        (io_then (create_tmpfs_dirs cfg)
        (io_then (umount_old_root cfg)
                 (syscall (Sethostname (HOSTNAME cfg)))))))"
  shows "\<exists>es. calls_within v (io_then late (handshake self) v) es"
proof -
  have "setup_step late"
    unfolding late_def
    by (simp add: setup_step_then setup_step_syscall setup_step_mount_defaults
        setup_step_create_default_dev_nodes setup_step_create_loop_devices
        setup_step_create_tmpfs_dirs setup_step_umount_old_root)
  then have "frame v (snd (late v))"
    by (simp add: setup_step_def)
  then obtain es1 where es1: "os_trace (snd (late v)) = os_trace v @ es1"
    by (auto simp: frame_def)
  obtain es2 where es2:
    "os_trace (snd (handshake self (snd (late v)))) = os_trace (snd (late v)) @ es2"
    using handshake_trace by blast
  have "calls_within v (io_then late (handshake self) v) (es1 @ es2)"
  proof (rule calls_within_then)
    show "calls_within v (late v) es1"
      using es1 by (rule calls_within_any)
  next
    fix x w1
    assume "late v = (Return x, w1)"
    then have "w1 = snd (late v)" by simp
    then show "calls_within w1 (handshake self w1) es2"
      using es2 by (simp add: calls_within_any)
  qed
  then show ?thesis by blast
qed

text \<open>
  C3. The calls of every run are a prefix of: \<open>setsid\<close>, the \<open>SIGCHLD\<close> disposition, the
  one \<open>unshare\<close> of the namespace step, then the five calls of \<open>setup_root_mount\<close>
  (the slave remount of \<open>/\<close>, \<open>mkdir old_root\<close>, \<open>chdir\<close>, \<open>pivot_root\<close>, \<open>chroot\<close>),
  then everything else. So the pivot starts only after \<open>unshare\<close> has been called, and
  every call for a mount-table entry, a device node or the old root comes after the
  last call of the pivot.
\<close>

theorem pivot_after_unshare_before_the_rest:
  "\<exists>flags n rest.
     os_trace (snd (run cfg self w)) = os_trace w @ take n
       ([Setsid, Signal SIGCHLD SIG_IGN, Unshare flags] @
        [Mount ''none'' ''/'' None (MS_REC cfg OR MS_SLAVE cfg) None,
         Mkdir (joinpath (root_dir self) ''old_root''), Chdir (root_dir self),
         Pivot_root ''.'' ''old_root'', Chroot ''.''] @ rest) \<and>
     (\<forall>x. fst (run cfg self w) = Return x \<longrightarrow> 8 + length rest \<le> n)"
proof (cases "os_pid w = 1")
  case False
  then have "os_trace (snd (run cfg self w)) = os_trace w @ take 0 ([Setsid, Signal SIGCHLD SIG_IGN, Unshare 0] @
        [Mount ''none'' ''/'' None (MS_REC cfg OR MS_SLAVE cfg) None,
         Mkdir (joinpath (root_dir self) ''old_root''), Chdir (root_dir self),
         Pivot_root ''.'' ''old_root'', Chroot ''.''] @ [])"
    "\<forall>x. fst (run cfg self w) \<noteq> Return x"
    by (simp_all add: run_eq)
  then show ?thesis by blast
next
  case True
  let ?P = "[Mount ''none'' ''/'' None (MS_REC cfg OR MS_SLAVE cfg) None,
         Mkdir (joinpath (root_dir self) ''old_root''), Chdir (root_dir self),
         Pivot_root ''.'' ''old_root'', Chroot ''.'']"
  let ?late = "io_then (mount_defaults cfg)
        (io_then (create_default_dev_nodes cfg)
        (io_then create_loop_devices
        (io_then (create_tmpfs_dirs cfg)
        (io_then (umount_old_root cfg)
                 (syscall (Sethostname (HOSTNAME cfg)))))))"
  let ?k4 = "io_then ?late (handshake self)"
  let ?k3 = "io_then (setup_root_mount cfg self) ?k4"
  let ?k2 = "io_then (create_namespaces cfg self) ?k3"
  let ?k1 = "io_then enable_zombie_reaping ?k2"
  have r: "run cfg self w = io_then (syscall Setsid) ?k1 w"
    using True
    by (simp add: run_def io_bind_def non_caching_getpid_def handshake_def io_then_assoc)
  have l3: "\<exists>cs. (\<exists>rest. cs = ?P @ rest) \<and> calls_within v (?k3 v) cs" for v
  proof -
    have "\<exists>cs2. True \<and> calls_within v (?k3 v) (?P @ cs2)"
      using calls_within_setup_root_mount after_pivot_calls
      by (intro calls_within_then_ex) auto
    then show ?thesis by blast
  qed
  have l2: "\<exists>cs. (\<exists>flags rest. cs = Unshare flags # ?P @ rest) \<and> calls_within v (?k2 v) cs" for v
  proof -
    obtain flags where f: "calls_within v (create_namespaces cfg self v) [Unshare flags]"
      using calls_within_create_namespaces by blast
    have "\<exists>cs2. (\<exists>rest. cs2 = ?P @ rest) \<and> calls_within v (?k2 v) ([Unshare flags] @ cs2)"
      using f l3 by (rule calls_within_then_ex)
    then show ?thesis by auto
  qed
  have l1: "\<exists>cs. (\<exists>flags rest. cs = Signal SIGCHLD SIG_IGN # Unshare flags # ?P @ rest)
              \<and> calls_within v (?k1 v) cs" for v
  proof -
    have "calls_within v (enable_zombie_reaping v) [Signal SIGCHLD SIG_IGN]"
      unfolding enable_zombie_reaping_def by (rule calls_within_syscall)
    then have "\<exists>cs2. (\<exists>flags rest. cs2 = Unshare flags # ?P @ rest)
        \<and> calls_within v (?k1 v) ([Signal SIGCHLD SIG_IGN] @ cs2)"
      using l2 by (rule calls_within_then_ex)
    then show ?thesis by auto
  qed
  have "\<exists>cs2. (\<exists>flags rest. cs2 = Signal SIGCHLD SIG_IGN # Unshare flags # ?P @ rest)
        \<and> calls_within w (io_then (syscall Setsid) ?k1 w) ([Setsid] @ cs2)"
    using calls_within_syscall l1 by (rule calls_within_then_ex)
  then obtain flags rest where
    "calls_within w (run cfg self w) ([Setsid, Signal SIGCHLD SIG_IGN, Unshare flags] @ ?P @ rest)"
    unfolding r by auto
  then show ?thesis
    unfolding calls_within_def by fastforce
qed

lemma sample_run: "fst (run sample_cfg sample_self sample_world) = Return 0"
  by code_simp

theorem pivot_after_unshare_before_the_rest_witness:
  "fst (run sample_cfg sample_self sample_world) = Return 0 \<and>
   (\<exists>flags rest.
     os_trace (snd (run sample_cfg sample_self sample_world)) =
       [Setsid, Signal SIGCHLD SIG_IGN, Unshare flags] @
        [Mount ''none'' ''/'' None 540672 None,
         Mkdir ''/mnt/ctr/old_root'', Chdir ''/mnt/ctr'',
         Pivot_root ''.'' ''old_root'', Chroot ''.''] @ rest)"
proof -
  obtain flags n rest where
    t: "os_trace (snd (run sample_cfg sample_self sample_world)) = os_trace sample_world @ take n
       ([Setsid, Signal SIGCHLD SIG_IGN, Unshare flags] @
        [Mount ''none'' ''/'' None (MS_REC sample_cfg OR MS_SLAVE sample_cfg) None,
         Mkdir (joinpath (root_dir sample_self) ''old_root''), Chdir (root_dir sample_self),
         Pivot_root ''.'' ''old_root'', Chroot ''.''] @ rest)"
    and f: "\<forall>x. fst (run sample_cfg sample_self sample_world) = Return x \<longrightarrow> 8 + length rest \<le> n"
    using pivot_after_unshare_before_the_rest [of sample_cfg sample_self sample_world] by blast
  have n: "8 + length rest \<le> n"
    using f sample_run by blast
  have c: "MS_REC sample_cfg OR MS_SLAVE sample_cfg = 540672"
    "joinpath (root_dir sample_self) ''old_root'' = ''/mnt/ctr/old_root''"
    "root_dir sample_self = ''/mnt/ctr''" "os_trace sample_world = []"
    by (simp_all add: sample_cfg_def sample_self_def sample_world_def joinpath_def)
  show ?thesis
    using t n sample_run unfolding c by (auto simp: joinpath_def)
qed

subsection \<open>The readiness marker\<close>

text \<open>
  C2. A setup step has passed when it returns without raising. The data written to
  descriptors by a run is the marker \<open>RDY\<close> on \<open>control_write\<close>, once, when the identity
  check and every setup step have passed and the write is accepted, and nothing
  otherwise. The calls of a run are those of the setup steps, none
  of them a write, followed by nothing, or, only when every setup step has returned, by
  the one write of the marker and possibly the read. A run that returns has written the
  marker once; a run whose setup raises ends with that error.
\<close>

theorem readiness_marker_written_once:
  "os_output (snd (run cfg self w)) =
     os_output w @
       (if os_pid w = 1 \<and> fst (setup_steps cfg self w) = Return () \<and>
           \<not> os_fails w (Write (control_write self) ''RDY'')
        then [(control_write self, ''RDY'')] else []) \<and>
   (\<exists>es rest.
      os_trace (snd (run cfg self w)) = os_trace w @ es @ rest \<and>
      (\<forall>fd d. Write fd d \<notin> set es) \<and>
      (os_pid w = 1 \<longrightarrow> os_trace (snd (setup_steps cfg self w)) = os_trace w @ es) \<and>
      (rest = [] \<or>
       os_pid w = 1 \<and> fst (setup_steps cfg self w) = Return () \<and>
       (rest = [Write (control_write self) ''RDY''] \<or>
        rest = [Write (control_write self) ''RDY'', Read (control_read self) 1]))) \<and>
   (\<forall>x. fst (run cfg self w) = Return x \<longrightarrow>
      os_output (snd (run cfg self w)) = os_output w @ [(control_write self, ''RDY'')]) \<and>
   (\<forall>e. os_pid w = 1 \<and> fst (setup_steps cfg self w) = Raise e \<longrightarrow>
      fst (run cfg self w) = Raise e)"
proof (cases "os_pid w = 1")
  case False
  then have r: "run cfg self w =
      (Raise (ValueError ''We are not actually PID1, exiting for safety reasons''), w)"
    by (simp add: run_eq)
  have "os_trace w = os_trace w @ [] @ []" by simp
  then show ?thesis
    unfolding r using False by (simp del: append_Nil2 append_Nil) 
next
  case True
  let ?v = "snd (setup_steps cfg self w)"
  let ?W = "Write (control_write self) ''RDY''"
  let ?R = "Read (control_read self) 1"
  have fr: "frame w ?v" by (rule setup_frame(1))
  then obtain es where es: "os_trace ?v = os_trace w @ es" "\<forall>fd d. Write fd d \<notin> set es"
    by (auto simp: frame_def)
  have same: "os_output ?v = os_output w" "os_fails ?v = os_fails w"
    "os_read_data ?v = os_read_data w"
    using fr by (simp_all add: frame_def)
  show ?thesis
  proof (cases "fst (setup_steps cfg self w)")
    case (Return u)
    then have ok: "fst (setup_steps cfg self w) = Return ()" by simp
    then have r: "run cfg self w = handshake self ?v"
      using True by (simp add: run_eq io_then_fst_Return)
    have out: "os_output (snd (handshake self ?v)) =
        os_output w @ (if \<not> os_fails w ?W then [(control_write self, ''RDY'')] else [])"
      by (simp add: handshake_eq same split: option.splits)
    have tr: "os_trace (snd (handshake self ?v)) = os_trace w @ es @ [?W] \<or>
        os_trace (snd (handshake self ?v)) = os_trace w @ es @ [?W, ?R]"
      by (simp add: handshake_eq es(1) split: option.splits)
    have ret: "\<forall>x. fst (handshake self ?v) = Return x \<longrightarrow> \<not> os_fails w ?W"
      by (simp add: handshake_eq same split: option.splits)
    have 1: "os_output (snd (run cfg self w)) =
       os_output w @
       (if os_pid w = 1 \<and> fst (setup_steps cfg self w) = Return () \<and> \<not> os_fails w ?W
        then [(control_write self, ''RDY'')] else [])"
      using out True ok by (simp add: r)
    have 2: "\<exists>es rest.
      os_trace (snd (run cfg self w)) = os_trace w @ es @ rest \<and>
      (\<forall>fd d. Write fd d \<notin> set es) \<and>
      (os_pid w = 1 \<longrightarrow> os_trace ?v = os_trace w @ es) \<and>
      (rest = [] \<or>
       os_pid w = 1 \<and> fst (setup_steps cfg self w) = Return () \<and>
       (rest = [?W] \<or> rest = [?W, ?R]))"
      using tr es True ok unfolding r by blast
    have 3: "\<forall>x. fst (run cfg self w) = Return x \<longrightarrow>
      os_output (snd (run cfg self w)) = os_output w @ [(control_write self, ''RDY'')]"
      using ret out by (simp add: r)
    have 4: "\<forall>e. os_pid w = 1 \<and> fst (setup_steps cfg self w) = Raise e \<longrightarrow>
      fst (run cfg self w) = Raise e"
      using ok by simp
    show ?thesis using 1 2 3 4 by blast
  next
    case (Raise err)
    then have s: "setup_steps cfg self w = (Raise err, ?v)"
      by (cases "setup_steps cfg self w") simp
    have r: "run cfg self w = (Raise err, ?v)"
      using True s by (simp add: run_eq io_then_Raise)
    have 2: "\<exists>es rest.
      os_trace (snd (run cfg self w)) = os_trace w @ es @ rest \<and>
      (\<forall>fd d. Write fd d \<notin> set es) \<and>
      (os_pid w = 1 \<longrightarrow> os_trace ?v = os_trace w @ es) \<and>
      (rest = [] \<or>
       os_pid w = 1 \<and> fst (setup_steps cfg self w) = Return () \<and>
       (rest = [?W] \<or> rest = [?W, ?R]))"
    proof (intro exI conjI)
      show "os_trace (snd (run cfg self w)) = os_trace w @ es @ []"
        by (simp add: r es(1))
      show "\<forall>fd d. Write fd d \<notin> set es" by (rule es(2))
      show "os_pid w = 1 \<longrightarrow> os_trace ?v = os_trace w @ es" by (simp add: es(1))
      show "[] = [] \<or>
       os_pid w = 1 \<and> fst (setup_steps cfg self w) = Return () \<and>
       ([] = [?W] \<or> [] = [?W, ?R])" by simp
    qed
    show ?thesis
      using 2 Raise by (simp add: r same)
  next
    case Block
    then show ?thesis using setup_frame(2) [of cfg self w] by simp
  qed
qed

lemma refusing_setup:
  "fst (setup_steps sample_cfg sample_self refusing_world) =
     Raise (OSError (Pivot_root ''.'' ''old_root''))"
  by code_simp

theorem readiness_marker_written_once_witness:
  "os_pid sample_world = 1 \<and>
   fst (setup_steps sample_cfg sample_self sample_world) = Return () \<and>
   fst (run sample_cfg sample_self sample_world) = Return 0 \<and>
   os_output (snd (run sample_cfg sample_self sample_world)) = [(4, ''RDY'')] \<and>
   fst (run sample_cfg sample_self refusing_world) =
     Raise (OSError (Pivot_root ''.'' ''old_root'')) \<and>
   os_output (snd (run sample_cfg sample_self refusing_world)) = []"
proof -
  have p: "os_pid sample_world = 1" "os_pid refusing_world = 1"
    by (simp_all add: sample_world_def refusing_world_def)
  have o: "os_output sample_world = []" "os_output refusing_world = []"
    "\<not> os_fails sample_world (Write (control_write sample_self) ''RDY'')"
    "control_write sample_self = 4"
    by (simp_all add: sample_world_def refusing_world_def sample_self_def)
  have 1: "os_output (snd (run sample_cfg sample_self sample_world)) = [(4, ''RDY'')]"
    using readiness_marker_written_once [of sample_cfg sample_self sample_world]
      p sample_setup o by simp
  have 2: "os_output (snd (run sample_cfg sample_self refusing_world)) = []"
    "fst (run sample_cfg sample_self refusing_world) =
      Raise (OSError (Pivot_root ''.'' ''old_root''))"
    using readiness_marker_written_once [of sample_cfg sample_self refusing_world]
      p refusing_setup o by simp_all
  show ?thesis
    using 1 2 p sample_setup sample_run by simp
qed

end
